theory Spec2Isabelle
  imports Main "HOL-Library.Sublist"
begin

section \<open>Paths: the part of Node's POSIX \<^verbatim>\<open>path\<close> module the hooks call\<close>

text \<open>
  \<^verbatim>\<open>HookEngine.ts\<close> and \<^verbatim>\<open>SelectActiveIntentTool.ts\<close> call \<^verbatim>\<open>path.join\<close> and
  \<^verbatim>\<open>path.relative\<close>. Both are library functions; they are modelled here on the list of
  segments between separators, for POSIX paths (separator \<open>/\<close>), as the repository's
  tests use them (\<^verbatim>\<open>cwd: "/mock/cwd"\<close>). The working directory of the process, which
  \<^verbatim>\<open>path.resolve\<close> puts in front of a relative path, is a parameter \<open>pcwd\<close> (an
  absolute path).
\<close>

fun splitSep :: "string \<Rightarrow> string list" where
  "splitSep [] = [[]]"
| "splitSep (c # cs) =
     (if c = CHR ''/'' then [] # splitSep cs
      else (case splitSep cs of [] \<Rightarrow> [[c]] | s # ss \<Rightarrow> (c # s) # ss))"

fun joinSep :: "string list \<Rightarrow> string" where
  "joinSep [] = []"
| "joinSep [s] = s"
| "joinSep (s # t # ss) = s @ ''/'' @ joinSep (t # ss)"

text \<open>
  \<^verbatim>\<open>normalizeString(path, allowAboveRoot)\<close>: empty segments and \<open>.\<close> vanish; \<open>..\<close>
  removes the segment before it when there is one that is not itself \<open>..\<close>, and is
  kept only where \<open>allowAboveRoot\<close> holds. \<open>acc\<close> is the result so far.
\<close>

fun normalizeString :: "bool \<Rightarrow> string list \<Rightarrow> string list \<Rightarrow> string list" where
  "normalizeString allowAboveRoot acc [] = acc"
| "normalizeString allowAboveRoot acc (seg # segs) =
     (if seg = [] \<or> seg = ''.'' then normalizeString allowAboveRoot acc segs
      else if seg = ''..'' then
        (if acc \<noteq> [] \<and> last acc \<noteq> ''..''
         then normalizeString allowAboveRoot (butlast acc) segs
         else if allowAboveRoot then normalizeString allowAboveRoot (acc @ [''..'']) segs
         else normalizeString allowAboveRoot acc segs)
      else normalizeString allowAboveRoot (acc @ [seg]) segs)"

definition isAbsolute :: "string \<Rightarrow> bool" where
  "isAbsolute p = (case p of [] \<Rightarrow> False | c # _ \<Rightarrow> c = CHR ''/'')"

definition path_normalize :: "string \<Rightarrow> string" where
  "path_normalize p =
     (if p = [] then ''.''
      else
        (let absolute = isAbsolute p;
             trailingSeparator = (last p = CHR ''/'');
             body = joinSep (normalizeString (\<not> absolute) [] (splitSep p))
         in if body = [] then (if absolute then ''/'' else if trailingSeparator then ''./'' else ''.'')
            else (if absolute then ''/'' else []) @ body @ (if trailingSeparator then ''/'' else [])))"

definition path_join :: "string list \<Rightarrow> string" where
  "path_join args =
     (let joined = filter (\<lambda>arg. arg \<noteq> []) args
      in if joined = [] then ''.'' else path_normalize (joinSep joined))"

text \<open>\<^verbatim>\<open>path.resolve(p)\<close> with one argument, as the list of segments below the root.\<close>

definition resolveSegs :: "string \<Rightarrow> string \<Rightarrow> string list" where
  "resolveSegs pcwd p =
     normalizeString False [] (splitSep (if isAbsolute p then p else pcwd @ ''/'' @ p))"

fun dropCommon :: "string list \<Rightarrow> string list \<Rightarrow> string list \<times> string list" where
  "dropCommon (a # as) (b # bs) = (if a = b then dropCommon as bs else (a # as, b # bs))"
| "dropCommon as bs = (as, bs)"

text \<open>
  \<^verbatim>\<open>path.relative(from, to)\<close>: both paths resolved, their common leading segments
  dropped, one \<open>..\<close> for every segment left of \<open>from\<close>, then what is left of \<open>to\<close>.
\<close>

definition path_relative :: "string \<Rightarrow> string \<Rightarrow> string \<Rightarrow> string" where
  "path_relative pcwd from to =
     (if from = to then []
      else
        (let f = resolveSegs pcwd from; t = resolveSegs pcwd to
         in if f = t then []
            else (case dropCommon f t of (f', t') \<Rightarrow> joinSep (map (\<lambda>_. ''..'') f' @ t'))))"

section \<open>Strings\<close>

text \<open>\<^verbatim>\<open>s.startsWith(searchString)\<close> and \<^verbatim>\<open>s.includes(searchString)\<close>.\<close>

definition startsWith :: "string \<Rightarrow> string \<Rightarrow> bool" where
  "startsWith s searchString = prefix searchString s"

fun str_includes :: "string \<Rightarrow> string \<Rightarrow> bool" where
  "str_includes [] searchString = (searchString = [])"
| "str_includes (c # cs) searchString =
     (prefix searchString (c # cs) \<or> str_includes cs searchString)"

definition newline :: char where
  "newline = CHR 0x0A"

section \<open>Data model\<close>

datatype intent_status = pending | in_progress | completed

text \<open>\<^verbatim>\<open>interface ActiveIntent\<close>; its field \<^verbatim>\<open>id\<close> is \<open>ident\<close> here.\<close>

record ActiveIntent =
  ident :: string
  name :: string
  status :: intent_status
  owned_scope :: "string list"
  constraints :: "string list"
  acceptance_criteria :: "string list"

text \<open>
  What \<^verbatim>\<open>parseYaml(content) as ActiveIntent[]\<close> returns: a sequence of intents, or
  any other YAML value (a mapping, a scalar, null), for which \<^verbatim>\<open>Array.isArray\<close> is
  false. The elements of a sequence are taken at the declared type.
\<close>

datatype yaml = YamlArray "ActiveIntent list" | YamlOther

text \<open>
  The errors thrown: \<open>ScopeViolation intentId relativePath owned_scope\<close> stands for
  \<^verbatim>\<open>new Error(`Scope Violation: Intent '${intentId}' is not authorized to edit
  '${relativePath}'. Owned scopes: ${JSON.stringify(intent.owned_scope)}`)\<close>;
  \<open>YAMLParseError\<close> for whatever \<^verbatim>\<open>parseYaml\<close> throws; \<open>TypeError\<close> for
  \<^verbatim>\<open>path.relative\<close> called with an undefined path; \<open>NoActiveIntentsFound\<close> and
  \<open>IntentIDNotFound\<close> for the two errors of the select-intent tool.
\<close>

datatype exn =
    ScopeViolation string string "string list"
  | YAMLParseError
  | TypeError
  | NoActiveIntentsFound
  | IntentIDNotFound string

datatype console_line =
    ConsoleLog string
  | ConsoleWarn string
  | ConsoleError string exn

record Task =
  taskId :: string
  cwd :: string

text \<open>\<^verbatim>\<open>params: any\<close>: the three properties the hooks read; \<open>None\<close> is undefined.\<close>

record Params =
  path :: "string option"
  content :: "string option"
  intent_id :: "string option"

text \<open>
  The object literal \<^verbatim>\<open>traceEntry\<close>; \<^verbatim>\<open>intent_id\<close>, \<^verbatim>\<open>params.path\<close> and
  \<^verbatim>\<open>params.content_hash\<close> are \<open>trace_intent_id\<close>, \<open>params_path\<close> and
  \<open>params_content_hash\<close>.
\<close>

record traceEntry =
  timestamp :: string
  trace_intent_id :: string
  tool :: string
  params_path :: "string option"
  params_content_hash :: string
  result_summary :: string
  file_hash :: string
  git :: string

text \<open>
  The state the hooks read and write: the singleton's \<^verbatim>\<open>activeIntents\<close> map
  (taskId to intentId), the files by path, and the console. Directories are not
  modelled: \<^verbatim>\<open>fs.mkdir\<close> (whose failure the source swallows) leaves \<open>files\<close> as it
  is, and reading or appending to a file does not fail.
\<close>

record world =
  activeIntents :: "string \<rightharpoonup> string"
  files :: "string \<rightharpoonup> string"
  console :: "console_line list"

text \<open>
  The libraries and helpers the hooks call, as parameters: \<^verbatim>\<open>parse\<close> of package
  \<^verbatim>\<open>yaml\<close>, \<^verbatim>\<open>crypto.createHash('sha256').update(s).digest('hex')\<close>,
  \<^verbatim>\<open>new Date().toISOString()\<close>, \<^verbatim>\<open>getGitMetadata\<close> of \<^verbatim>\<open>utils/git\<close>,
  \<^verbatim>\<open>JSON.stringify\<close> on a trace entry, and \<^verbatim>\<open>process.cwd()\<close>.
\<close>

record env =
  parseYaml :: "string \<Rightarrow> exn + yaml"
  sha256_hex :: "string \<Rightarrow> string"
  toISOString_now :: string
  getGitMetadata :: "string \<Rightarrow> string"
  JSON_stringify :: "traceEntry \<Rightarrow> string"
  process_cwd :: string

definition console_log :: "console_line \<Rightarrow> world \<Rightarrow> world" where
  "console_log l w = w\<lparr>console := console w @ [l]\<rparr>"

definition appendFile :: "string \<Rightarrow> string \<Rightarrow> world \<Rightarrow> world" where
  "appendFile p s w =
     w\<lparr>files := (files w)(p \<mapsto> (case files w p of None \<Rightarrow> [] | Some old \<Rightarrow> old) @ s)\<rparr>"

section \<open>HookEngine\<close>

text \<open>
  The two files under \<^verbatim>\<open>.orchestration\<close>: \<^verbatim>\<open>intentsPath\<close> is computed by
  \<^verbatim>\<open>enforceScope\<close> and by the select-intent tool, \<^verbatim>\<open>traceFile\<close> by \<^verbatim>\<open>traceAction\<close>.
\<close>

definition intentsPath :: "Task \<Rightarrow> string" where
  "intentsPath task = path_join [cwd task, ''.orchestration'', ''active_intents.yaml'']"

definition traceFile :: "Task \<Rightarrow> string" where
  "traceFile task = path_join [cwd task, ''.orchestration'', ''agent_trace.jsonl'']"

text \<open>
  The values of an optional string that JavaScript takes as false (\<^verbatim>\<open>!intentId\<close>,
  \<^verbatim>\<open>if (params.intent_id)\<close>): undefined and the empty string. The hooks below test
  the two cases one by one.
\<close>

definition falsy :: "string option \<Rightarrow> bool" where
  "falsy v = (case v of None \<Rightarrow> True | Some s \<Rightarrow> s = [])"

text \<open>The callback of \<^verbatim>\<open>intent.owned_scope.some\<close>.\<close>

definition scopeMatches :: "string \<Rightarrow> string \<Rightarrow> string \<Rightarrow> bool" where
  "scopeMatches relativePath filePath scope =
     (if scope = relativePath \<or> scope = filePath then True
      else if startsWith relativePath scope \<or> startsWith filePath scope then True
      else False)"

definition enforceScope ::
  "env \<Rightarrow> string \<Rightarrow> string option \<Rightarrow> Task \<Rightarrow> world \<Rightarrow> (exn + unit) \<times> world" where
  "enforceScope E intentId filePath task w =
     (case files w (intentsPath task) of
        None \<Rightarrow> (Inr (), w)
      | Some content' \<Rightarrow>
         (case parseYaml E content' of
            Inl e \<Rightarrow>
              (Inr (), console_log (ConsoleError ''[HookEngine] Error enforcing scope:'' e) w)
          | Inr intents \<Rightarrow>
             (case (case intents of
                      YamlArray is \<Rightarrow> find (\<lambda>i. ident i = intentId) is
                    | YamlOther \<Rightarrow> None) of
                None \<Rightarrow>
                  (Inr (),
                   console_log
                     (ConsoleWarn (''[HookEngine] Intent '' @ intentId @ '' not found in yaml'')) w)
              | Some intent \<Rightarrow>
                 (case filePath of
                    None \<Rightarrow>
                      (Inr (),
                       console_log
                         (ConsoleError ''[HookEngine] Error enforcing scope:'' TypeError) w)
                  | Some fp \<Rightarrow>
                     (let relativePath = path_relative (process_cwd E) (cwd task) fp;
                          isAllowed =
                            list_ex (scopeMatches relativePath fp) (owned_scope intent)
                      in if \<not> isAllowed
                         then (Inl (ScopeViolation intentId relativePath (owned_scope intent)), w)
                         else (Inr (), w))))))"

definition preToolExecution ::
  "env \<Rightarrow> string \<Rightarrow> Params \<Rightarrow> Task \<Rightarrow> world \<Rightarrow> (exn + unit) \<times> world" where
  "preToolExecution E toolName params task w =
     (let w1 = console_log (ConsoleLog (''[HookEngine] Pre-tool execution: '' @ toolName)) w;
          intentId = activeIntents w1 (taskId task)
      in if toolName = ''write_to_file'' then
           (case intentId of
              None \<Rightarrow>
                (Inr (),
                 console_log (ConsoleWarn ''[HookEngine] WRITE attempted without Active Intent'') w1)
            | Some i \<Rightarrow>
                if i = [] then
                  (Inr (),
                   console_log (ConsoleWarn ''[HookEngine] WRITE attempted without Active Intent'') w1)
                else enforceScope E i (path params) task w1)
         else (Inr (), w1))"

text \<open>
  \<^verbatim>\<open>result\<close> is \<open>Some s\<close> when \<^verbatim>\<open>typeof result === 'string'\<close>, \<open>None\<close> otherwise.
\<close>

definition traceAction ::
  "env \<Rightarrow> string \<Rightarrow> Params \<Rightarrow> string option \<Rightarrow> Task \<Rightarrow> world \<Rightarrow> world" where
  "traceAction E toolName params result task w =
     (case activeIntents w (taskId task) of
        None \<Rightarrow> w
      | Some intentId \<Rightarrow>
          if intentId = [] then w
          else
            (let contentHash =
                   sha256_hex E (case content params of None \<Rightarrow> [] | Some c \<Rightarrow> c);
                 entry =
                   \<lparr>timestamp = toISOString_now E,
                    trace_intent_id = intentId,
                    tool = toolName,
                    params_path = path params,
                    params_content_hash = contentHash,
                    result_summary =
                      (case result of
                         Some r \<Rightarrow> take 100 r
                       | None \<Rightarrow> ''Result too large/complex''),
                    file_hash = contentHash,
                    git = getGitMetadata E (cwd task)\<rparr>
             in appendFile (traceFile task) (JSON_stringify E entry @ [newline]) w))"

definition postToolExecution ::
  "env \<Rightarrow> string \<Rightarrow> Params \<Rightarrow> string option \<Rightarrow> Task \<Rightarrow> world \<Rightarrow> world" where
  "postToolExecution E toolName params result task w =
     (let w1 = console_log (ConsoleLog (''[HookEngine] Post-tool execution: '' @ toolName)) w
      in if toolName = ''select_active_intent'' then
           (case intent_id params of
              None \<Rightarrow> w1
            | Some i \<Rightarrow>
                if i = [] then w1
                else
                  console_log
                    (ConsoleLog (''[HookEngine] Set active intent '' @ i @ '' for task '' @ taskId task))
                    (w1\<lparr>activeIntents := (activeIntents w1)(taskId task \<mapsto> i)\<rparr>))
         else if toolName = ''write_to_file'' then traceAction E toolName params result task w1
         else w1)"

section \<open>SelectActiveIntentTool\<close>

text \<open>The two callbacks of \<^verbatim>\<open>ToolCallbacks\<close> that \<^verbatim>\<open>execute\<close> calls, as events.\<close>

datatype callback = pushToolResult string | handleError string exn

text \<open>The template \<^verbatim>\<open>`<intent_context>\n${content}\n</intent_context>`\<close>.\<close>

definition intent_context :: "string \<Rightarrow> string" where
  "intent_context content' =
     ''<intent_context>'' @ [newline] @ content' @ [newline] @ ''</intent_context>''"

definition execute :: "env \<Rightarrow> string \<Rightarrow> Task \<Rightarrow> world \<Rightarrow> callback list \<times> world" where
  "execute E intent_id' task w =
     (case files w (intentsPath task) of
        None \<Rightarrow> ([handleError ''selecting active intent'' NoActiveIntentsFound], w)
      | Some content' \<Rightarrow>
         (let contextBlock = intent_context content'
          in if \<not> str_includes content' intent_id'
             then ([handleError ''selecting active intent'' (IntentIDNotFound intent_id')], w)
             else
               ([pushToolResult contextBlock],
                postToolExecution E ''select_active_intent''
                  \<lparr>path = None, content = None, intent_id = Some intent_id'\<rparr>
                  (Some contextBlock) task w)))"

section \<open>The scope matcher as the specification words it\<close>

text \<open>
  The specification's matcher, for comparison with \<open>enforceScope\<close>: a target is
  authorized when an entry equals it or when the entry's segments are the leading
  segments of the target's (prefix matching by path component).
\<close>

definition segments :: "string \<Rightarrow> string list" where
  "segments p = filter (\<lambda>s. s \<noteq> []) (splitSep p)"

definition spec_within_subtree :: "string \<Rightarrow> string \<Rightarrow> bool" where
  "spec_within_subtree entry t = prefix (segments entry) (segments t)"

definition spec_authorize :: "string \<Rightarrow> string list \<Rightarrow> bool" where
  "spec_authorize t S = list_ex (\<lambda>entry. entry = t \<or> spec_within_subtree entry t) S"

text \<open>A relative path that leaves the project root: it starts with the segment \<open>..\<close>.\<close>

definition escapesRoot :: "string \<Rightarrow> bool" where
  "escapesRoot relativePath = (relativePath = ''..'' \<or> startsWith relativePath ''../'')"

section \<open>A concrete project\<close>

text \<open>
  The task of \<^verbatim>\<open>HookEngine.test.ts\<close> (\<^verbatim>\<open>taskId: "test-task-id", cwd: "/mock/cwd"\<close>),
  an intent store with three intents (the first has the test's scope list), and
  stand-ins for the libraries.
\<close>

definition task0 :: Task where
  "task0 = \<lparr>taskId = ''test-task-id'', cwd = ''/mock/cwd''\<rparr>"

definition intentsPath0 :: string where
  "intentsPath0 = ''/mock/cwd/.orchestration/active_intents.yaml''"

definition tracePath0 :: string where
  "tracePath0 = ''/mock/cwd/.orchestration/agent_trace.jsonl''"

definition intentsYaml :: string where
  "intentsYaml = concat (map (\<lambda>l. l @ [newline])
     [''- id: INT-001'',
      ''  name: Hook System Implementation'',
      ''  status: in_progress'',
      ''  owned_scope:'',
      ''    - src/hooks/'',
      ''    - docs/README.md'',
      ''  constraints:'',
      ''    - Must maintain type safety'',
      ''  acceptance_criteria:'',
      ''    - Tests pass'',
      ''- id: INT-002'',
      ''  name: Hook prototype'',
      ''  status: pending'',
      ''  owned_scope:'',
      ''    - src/hook'',
      ''  constraints: []'',
      ''  acceptance_criteria: []'',
      ''- id: INT-003'',
      ''  name: Review only'',
      ''  status: pending'',
      ''  owned_scope: []'',
      ''  constraints: []'',
      ''  acceptance_criteria: []''])"

definition intents0 :: "ActiveIntent list" where
  "intents0 =
     [\<lparr>ident = ''INT-001'', name = ''Hook System Implementation'', status = in_progress,
       owned_scope = [''src/hooks/'', ''docs/README.md''],
       constraints = [''Must maintain type safety''], acceptance_criteria = [''Tests pass'']\<rparr>,
      \<lparr>ident = ''INT-002'', name = ''Hook prototype'', status = pending,
       owned_scope = [''src/hook''], constraints = [], acceptance_criteria = []\<rparr>,
      \<lparr>ident = ''INT-003'', name = ''Review only'', status = pending,
       owned_scope = [], constraints = [], acceptance_criteria = []\<rparr>]"

text \<open>
  \<open>E0\<close> parses \<open>intentsYaml\<close> to \<open>intents0\<close> and the one-line mapping
  \<^verbatim>\<open>intents: none\<close> to a value that is not a sequence, and rejects every other text
  (the proofs below feed it only these two and the unclosed \<^verbatim>\<open>- id: [INT-001\<close>).
  Its digest, clock, git metadata and JSON printer are placeholders.
\<close>

definition E0 :: env where
  "E0 = \<lparr>parseYaml = (\<lambda>c. if c = intentsYaml then Inr (YamlArray intents0)
                          else if c = ''intents: none'' then Inr YamlOther
                          else Inl YAMLParseError),
         sha256_hex = (\<lambda>s. ''sha256:'' @ s),
         toISOString_now = ''2026-02-21T00:00:00.000Z'',
         getGitMetadata = (\<lambda>d. ''{}''),
         JSON_stringify =
           (\<lambda>e. trace_intent_id e @ '' '' @ tool e @ '' '' @ params_content_hash e),
         process_cwd = ''/mock/cwd''\<rparr>"

text \<open>The store is on disk and no session is bound.\<close>

definition world0 :: world where
  "world0 = \<lparr>activeIntents = Map.empty, files = [intentsPath0 \<mapsto> intentsYaml], console = []\<rparr>"

text \<open>The store holds text that is not YAML, and the session is bound to \<open>INT-001\<close>.\<close>

definition world_corrupt :: world where
  "world_corrupt =
     \<lparr>activeIntents = [''test-task-id'' \<mapsto> ''INT-001''],
      files = [intentsPath0 \<mapsto> ''- id: [INT-001''], console = []\<rparr>"

text \<open>There is no store, and no session is bound.\<close>

definition world_no_store :: world where
  "world_no_store = \<lparr>activeIntents = Map.empty, files = Map.empty, console = []\<rparr>"

text \<open>The session of \<open>task0\<close> bound to intent \<open>i\<close>.\<close>

definition bound :: "string \<Rightarrow> world \<Rightarrow> world" where
  "bound i w = w\<lparr>activeIntents := (activeIntents w)(taskId task0 \<mapsto> i)\<rparr>"

definition writeParams :: "string \<Rightarrow> string \<Rightarrow> Params" where
  "writeParams p c = \<lparr>path = Some p, content = Some c, intent_id = None\<rparr>"

definition selectParams :: "string \<Rightarrow> Params" where
  "selectParams i = \<lparr>path = None, content = None, intent_id = Some i\<rparr>"

section \<open>Facts shared by the proofs\<close>

lemma console_log_simps [simp]:
  "activeIntents (console_log l w) = activeIntents w"
  "files (console_log l w) = files w"
  "console (console_log l w) = console w @ [l]"
  by (simp_all add: console_log_def)

lemma bound_simps [simp]:
  "activeIntents (bound i w) (taskId task0) = Some i"
  "files (bound i w) = files w"
  by (simp_all add: bound_def)

lemma intentsPath_task0: "intentsPath task0 = intentsPath0"
  by (simp add: intentsPath_def task0_def intentsPath0_def path_join_def path_normalize_def
      isAbsolute_def)

lemma traceFile_task0: "traceFile task0 = tracePath0"
  by (simp add: traceFile_def task0_def tracePath0_def path_join_def path_normalize_def
      isAbsolute_def)

lemma scopeMatches_iff: "scopeMatches r fp s \<longleftrightarrow> prefix s r \<or> prefix s fp"
  by (auto simp: scopeMatches_def startsWith_def)

lemma str_includes_iff: "str_includes s t \<longleftrightarrow> (\<exists>u v. s = u @ t @ v)"
proof (induction s)
  case Nil
  then show ?case by simp
next
  case (Cons c cs)
  have "str_includes (c # cs) t \<longleftrightarrow> prefix t (c # cs) \<or> sublist t cs"
    using Cons.IH by (simp add: sublist_def)
  also have "\<dots> \<longleftrightarrow> sublist t (c # cs)"
    by (simp add: sublist_Cons_right)
  finally show ?case by (simp add: sublist_def)
qed

lemma enforceScope_absent:
  "files w (intentsPath task) = None \<Longrightarrow> enforceScope E iid fp task w = (Inr (), w)"
  by (simp add: enforceScope_def)

lemma enforceScope_found:
  assumes "files w (intentsPath task) = Some c"
    and "parseYaml E c = Inr (YamlArray is)"
    and "find (\<lambda>i. ident i = iid) is = Some intent"
  shows "enforceScope E iid (Some t) task w =
     (if list_ex (scopeMatches (path_relative (process_cwd E) (cwd task) t) t) (owned_scope intent)
      then Inr ()
      else Inl (ScopeViolation iid (path_relative (process_cwd E) (cwd task) t)
                  (owned_scope intent)), w)"
  using assms by (simp add: enforceScope_def Let_def)

lemma enforceScope_files: "files (snd (enforceScope E iid fp task w)) = files w"
  by (simp add: enforceScope_def Let_def split: option.splits sum.splits yaml.splits)

lemma preToolExecution_files: "files (snd (preToolExecution E toolName params task w)) = files w"
  by (simp add: preToolExecution_def Let_def enforceScope_files split: option.splits)

lemma preToolExecution_bound:
  assumes "activeIntents w (taskId task) = Some iid" and "iid \<noteq> []"
  shows "preToolExecution E ''write_to_file'' params task w =
     enforceScope E iid (path params) task
       (console_log (ConsoleLog ''[HookEngine] Pre-tool execution: write_to_file'') w)"
  using assms by (simp add: preToolExecution_def Let_def)

lemma store_world0: "files world0 (intentsPath task0) = Some intentsYaml"
  by (simp add: intentsPath_task0) (simp add: world0_def)

lemma store_corrupt: "files world_corrupt (intentsPath task0) = Some ''- id: [INT-001''"
  by (simp add: intentsPath_task0) (simp add: world_corrupt_def)

lemma bound_corrupt: "activeIntents world_corrupt (taskId task0) = Some ''INT-001''"
  by (simp add: world_corrupt_def task0_def)

lemma parse_intentsYaml: "parseYaml E0 intentsYaml = Inr (YamlArray intents0)"
  by (simp add: E0_def)

lemma parse_corrupt: "parseYaml E0 ''- id: [INT-001'' = Inl YAMLParseError"
  by (simp add: E0_def intentsYaml_def)

lemma find_INT_001: "find (\<lambda>i. ident i = ''INT-001'') intents0 = Some (intents0 ! 0)"
  by (simp add: intents0_def)

lemma find_INT_002: "find (\<lambda>i. ident i = ''INT-002'') intents0 = Some (intents0 ! 1)"
  by (simp add: intents0_def)

lemma find_INT_003: "find (\<lambda>i. ident i = ''INT-003'') intents0 = Some (intents0 ! 2)"
  by (simp add: intents0_def)

lemma find_INT_999: "find (\<lambda>i. ident i = ''INT-999'') intents0 = None"
  by (simp add: intents0_def)

lemma find_INT_00: "find (\<lambda>i. ident i = ''INT-00'') intents0 = None"
  by (simp add: intents0_def)

lemma scope_INT_001: "owned_scope (intents0 ! 0) = [''src/hooks/'', ''docs/README.md'']"
  by (simp add: intents0_def)

lemma scope_INT_002: "owned_scope (intents0 ! 1) = [''src/hook'']"
  by (simp add: intents0_def)

lemma scope_INT_003: "owned_scope (intents0 ! 2) = []"
  by (simp add: intents0_def)

lemma select_no_store:
  "postToolExecution E0 ''select_active_intent'' (selectParams ''INT-001'') (Some ''Selected'')
     task0 world_no_store =
   \<lparr>activeIntents = [''test-task-id'' \<mapsto> ''INT-001''], files = Map.empty,
    console = [ConsoleLog ''[HookEngine] Post-tool execution: select_active_intent'',
               ConsoleLog ''[HookEngine] Set active intent INT-001 for task test-task-id'']\<rparr>"
  by (simp add: postToolExecution_def Let_def selectParams_def world_no_store_def task0_def
      console_log_def)

section \<open>Scope authorization\<close>

text \<open>
  C1 (as amended). With the store present, parsed to a sequence, and the bound id
  resolving to an intent with owned scope \<open>S\<close>, \<open>enforceScope\<close> allows the target \<open>t\<close>
  if and only if some entry of \<open>S\<close> is a plain string prefix (equality included) of the
  root-relative form of \<open>t\<close> or of \<open>t\<close> as it was passed; otherwise it throws the
  Scope Violation error naming the intent, the relative path and \<open>S\<close>. The prefix is
  taken on characters, not on path components.
\<close>

theorem enforceScope_allows_iff_string_prefix:
  assumes "files w (intentsPath task) = Some c"
    and "parseYaml E c = Inr (YamlArray is)"
    and "find (\<lambda>i. ident i = iid) is = Some intent"
    and "owned_scope intent = S"
    and "r = path_relative (process_cwd E) (cwd task) t"
  shows "enforceScope E iid (Some t) task w =
           (if \<exists>s \<in> set S. prefix s r \<or> prefix s t then (Inr (), w)
            else (Inl (ScopeViolation iid r S), w))"
  using assms by (simp add: enforceScope_found list_ex_iff scopeMatches_iff)

text \<open>
  The theorem at intent \<open>INT-002\<close> (scope \<open>src/hook\<close>): a file below \<open>src/hook\<close> is
  allowed, a file below \<open>lib\<close> is refused.
\<close>

theorem enforceScope_allows_iff_string_prefix_witness:
  "find (\<lambda>i. ident i = ''INT-002'') intents0 = Some (intents0 ! 1)
   \<and> enforceScope E0 ''INT-002'' (Some ''/mock/cwd/src/hook/a.ts'') task0 world0 = (Inr (), world0)
   \<and> enforceScope E0 ''INT-002'' (Some ''/mock/cwd/lib/a.ts'') task0 world0 =
       (Inl (ScopeViolation ''INT-002'' ''lib/a.ts'' [''src/hook'']), world0)"
proof -
  have r1: "''src/hook/a.ts'' =
      path_relative (process_cwd E0) (cwd task0) ''/mock/cwd/src/hook/a.ts''"
    by (simp add: path_relative_def resolveSegs_def isAbsolute_def E0_def task0_def)
  have r2: "''lib/a.ts'' = path_relative (process_cwd E0) (cwd task0) ''/mock/cwd/lib/a.ts''"
    by (simp add: path_relative_def resolveSegs_def isAbsolute_def E0_def task0_def)
  show ?thesis
    using enforceScope_allows_iff_string_prefix
            [OF store_world0 parse_intentsYaml find_INT_002 scope_INT_002 r1]
          enforceScope_allows_iff_string_prefix
            [OF store_world0 parse_intentsYaml find_INT_002 scope_INT_002 r2]
          find_INT_002
    by simp
qed

text \<open>
  C1 as stated fails: intent \<open>INT-002\<close> owns \<open>src/hook\<close>, and the write to
  \<open>/mock/cwd/src/hooks-evil/x.ts\<close> is allowed, although \<open>src/hooks-evil/x.ts\<close>
  neither equals the entry nor lies in its subtree.
\<close>

theorem enforceScope_component_prefix_counterexample:
  "fst (enforceScope E0 ''INT-002'' (Some ''/mock/cwd/src/hooks-evil/x.ts'') task0 world0) = Inr ()
   \<and> path_relative (process_cwd E0) (cwd task0) ''/mock/cwd/src/hooks-evil/x.ts'' =
       ''src/hooks-evil/x.ts''
   \<and> \<not> spec_authorize ''src/hooks-evil/x.ts'' [''src/hook'']"
proof (intro conjI)
  have r: "path_relative (process_cwd E0) (cwd task0) ''/mock/cwd/src/hooks-evil/x.ts'' =
      ''src/hooks-evil/x.ts''"
    by (simp add: path_relative_def resolveSegs_def isAbsolute_def E0_def task0_def)
  show "path_relative (process_cwd E0) (cwd task0) ''/mock/cwd/src/hooks-evil/x.ts'' =
      ''src/hooks-evil/x.ts''"
    by (rule r)
  have "enforceScope E0 ''INT-002'' (Some ''/mock/cwd/src/hooks-evil/x.ts'') task0 world0 =
      (Inr (), world0)"
    by (simp add: enforceScope_found [OF store_world0 parse_intentsYaml find_INT_002] r)
       (simp add: intents0_def scopeMatches_iff)
  then show "fst (enforceScope E0 ''INT-002'' (Some ''/mock/cwd/src/hooks-evil/x.ts'')
      task0 world0) = Inr ()"
    by simp
  show "\<not> spec_authorize ''src/hooks-evil/x.ts'' [''src/hook'']"
    by (simp add: spec_authorize_def spec_within_subtree_def segments_def)
qed

section \<open>A bound id that does not resolve\<close>

text \<open>
  C2 (as amended). When the session is bound to an id that no intent of the loaded
  store has, the pre-action check for \<open>write_to_file\<close> allows the action: it throws
  nothing, changes neither the registry nor the files, and adds to the console the
  warning that the intent was not found in the yaml.
\<close>

theorem preToolExecution_unresolved_intent_allowed:
  assumes "activeIntents w (taskId task) = Some iid" and "iid \<noteq> []"
    and "files w (intentsPath task) = Some c"
    and "parseYaml E c = Inr (YamlArray is)"
    and "find (\<lambda>i. ident i = iid) is = None"
  shows "preToolExecution E ''write_to_file'' params task w =
     (Inr (),
      console_log (ConsoleWarn (''[HookEngine] Intent '' @ iid @ '' not found in yaml''))
        (console_log (ConsoleLog ''[HookEngine] Pre-tool execution: write_to_file'') w))"
  using assms by (simp add: preToolExecution_bound enforceScope_def)

theorem preToolExecution_unresolved_intent_allowed_witness:
  "find (\<lambda>i. ident i = ''INT-999'') intents0 = None
   \<and> preToolExecution E0 ''write_to_file'' (writeParams ''/mock/cwd/package.json'' ''{}'') task0
       (bound ''INT-999'' world0) =
     (Inr (),
      console_log (ConsoleWarn ''[HookEngine] Intent INT-999 not found in yaml'')
        (console_log (ConsoleLog ''[HookEngine] Pre-tool execution: write_to_file'')
           (bound ''INT-999'' world0)))"
proof -
  have a: "activeIntents (bound ''INT-999'' world0) (taskId task0) = Some ''INT-999''"
    by simp
  have n: "''INT-999'' \<noteq> []"
    by simp
  have f: "files (bound ''INT-999'' world0) (intentsPath task0) = Some intentsYaml"
    using store_world0 by simp
  show ?thesis
    using preToolExecution_unresolved_intent_allowed [OF a n f parse_intentsYaml find_INT_999]
      find_INT_999
    by simp
qed

text \<open>
  C2 as stated fails: the session is bound to \<open>INT-999\<close>, which the store does not
  hold, and the write to \<open>package.json\<close> is not denied.
\<close>

theorem unresolved_intent_not_denied_counterexample:
  "activeIntents (bound ''INT-999'' world0) (taskId task0) = Some ''INT-999''
   \<and> find (\<lambda>i. ident i = ''INT-999'') intents0 = None
   \<and> fst (preToolExecution E0 ''write_to_file'' (writeParams ''/mock/cwd/package.json'' ''{}'')
       task0 (bound ''INT-999'' world0)) = Inr ()"
proof -
  have f: "files (bound ''INT-999'' world0) (intentsPath task0) = Some intentsYaml"
    using store_world0 by simp
  have "preToolExecution E0 ''write_to_file'' (writeParams ''/mock/cwd/package.json'' ''{}'')
      task0 (bound ''INT-999'' world0) =
    enforceScope E0 ''INT-999'' (Some ''/mock/cwd/package.json'') task0
      (console_log (ConsoleLog ''[HookEngine] Pre-tool execution: write_to_file'')
         (bound ''INT-999'' world0))"
    by (simp add: preToolExecution_bound writeParams_def)
  then show ?thesis
    using f by (simp add: enforceScope_def parse_intentsYaml find_INT_999)
qed

section \<open>A malformed store\<close>

text \<open>
  C3 (as amended). When the store is present but malformed (the parser throws, or the
  parsed value is not a sequence), the pre-action check for \<open>write_to_file\<close> of a bound
  session allows the action: it throws nothing and changes neither the registry nor
  the files. A parser error is written to the console as an error; a value that is not
  a sequence is handled as an empty intent list, with the warning that the intent was
  not found.
\<close>

theorem preToolExecution_malformed_store_allowed:
  assumes "activeIntents w (taskId task) = Some iid" and "iid \<noteq> []"
    and "files w (intentsPath task) = Some c"
    and "parseYaml E c = Inl e \<or> parseYaml E c = Inr YamlOther"
  shows "preToolExecution E ''write_to_file'' params task w =
     (Inr (),
      console_log
        (case parseYaml E c of
           Inl e \<Rightarrow> ConsoleError ''[HookEngine] Error enforcing scope:'' e
         | Inr _ \<Rightarrow> ConsoleWarn (''[HookEngine] Intent '' @ iid @ '' not found in yaml''))
        (console_log (ConsoleLog ''[HookEngine] Pre-tool execution: write_to_file'') w))"
  using assms by (auto simp add: preToolExecution_bound enforceScope_def)

theorem preToolExecution_malformed_store_allowed_witness:
  "parseYaml E0 ''- id: [INT-001'' = Inl YAMLParseError
   \<and> preToolExecution E0 ''write_to_file'' (writeParams ''/mock/cwd/package.json'' ''{}'') task0
       world_corrupt =
     (Inr (),
      console_log (ConsoleError ''[HookEngine] Error enforcing scope:'' YAMLParseError)
        (console_log (ConsoleLog ''[HookEngine] Pre-tool execution: write_to_file'')
           world_corrupt))"
proof -
  have n: "''INT-001'' \<noteq> []"
    by simp
  have d: "parseYaml E0 ''- id: [INT-001'' = Inl YAMLParseError
      \<or> parseYaml E0 ''- id: [INT-001'' = Inr YamlOther"
    by (simp add: parse_corrupt)
  show ?thesis
    using preToolExecution_malformed_store_allowed [OF bound_corrupt n store_corrupt d]
    by (simp add: parse_corrupt)
qed

text \<open>
  C3 as stated fails: the store holds \<^verbatim>\<open>- id: [INT-001\<close>, the parser throws, and the
  write of the bound session is allowed; no error reaches the caller.
\<close>

theorem corrupt_store_not_denied_counterexample:
  "parseYaml E0 ''- id: [INT-001'' = Inl YAMLParseError
   \<and> fst (preToolExecution E0 ''write_to_file'' (writeParams ''/mock/cwd/package.json'' ''{}'')
       task0 world_corrupt) = Inr ()"
proof -
  have "preToolExecution E0 ''write_to_file'' (writeParams ''/mock/cwd/package.json'' ''{}'')
      task0 world_corrupt =
    enforceScope E0 ''INT-001'' (Some ''/mock/cwd/package.json'') task0
      (console_log (ConsoleLog ''[HookEngine] Pre-tool execution: write_to_file'') world_corrupt)"
    using bound_corrupt by (simp add: preToolExecution_bound writeParams_def)
  then show ?thesis
    using store_corrupt by (simp add: enforceScope_def parse_corrupt)
qed

section \<open>An absent store\<close>

text \<open>
  C4 (as amended). When the store file does not exist, the scope check raises no
  error and reads no intent list: for a bound session the pre-action check allows
  every \<open>write_to_file\<close>, changing nothing but the console log. The select-intent tool
  fails there with the error \<^verbatim>\<open>No active intents found\<close>, handed to \<open>handleError\<close>,
  and leaves the state as it was.
\<close>

theorem absent_store_allows_write_and_fails_select:
  assumes "files w (intentsPath task) = None"
    and "activeIntents w (taskId task) = Some iid" and "iid \<noteq> []"
  shows "preToolExecution E ''write_to_file'' params task w =
           (Inr (), console_log (ConsoleLog ''[HookEngine] Pre-tool execution: write_to_file'') w)
         \<and> execute E sel task w =
           ([handleError ''selecting active intent'' NoActiveIntentsFound], w)"
  using assms by (simp add: preToolExecution_bound enforceScope_absent execute_def)

theorem absent_store_allows_write_and_fails_select_witness:
  "files world_no_store intentsPath0 = None
   \<and> preToolExecution E0 ''write_to_file'' (writeParams ''/mock/cwd/package.json'' ''{}'') task0
         (bound ''INT-001'' world_no_store) =
       (Inr (), console_log (ConsoleLog ''[HookEngine] Pre-tool execution: write_to_file'')
          (bound ''INT-001'' world_no_store))
   \<and> execute E0 ''INT-001'' task0 (bound ''INT-001'' world_no_store) =
       ([handleError ''selecting active intent'' NoActiveIntentsFound],
        bound ''INT-001'' world_no_store)"
proof -
  have f: "files (bound ''INT-001'' world_no_store) (intentsPath task0) = None"
    by (simp add: world_no_store_def)
  have a: "activeIntents (bound ''INT-001'' world_no_store) (taskId task0) = Some ''INT-001''"
    by simp
  have n: "''INT-001'' \<noteq> []"
    by simp
  show ?thesis
    using absent_store_allows_write_and_fails_select [OF f a n]
    by (simp add: world_no_store_def)
qed

text \<open>
  C4 as stated fails: with no store on disk, the post-action hook of
  \<open>select_active_intent\<close> (called as the repository's test calls it) binds the session
  to \<open>INT-001\<close>, and the write to \<open>package.json\<close> is then authorized.
\<close>

theorem absent_store_write_authorized_counterexample:
  "files world_no_store intentsPath0 = None
   \<and> activeIntents (postToolExecution E0 ''select_active_intent'' (selectParams ''INT-001'')
         (Some ''Selected'') task0 world_no_store) (taskId task0) = Some ''INT-001''
   \<and> fst (preToolExecution E0 ''write_to_file'' (writeParams ''/mock/cwd/package.json'' ''{}'')
         task0
         (postToolExecution E0 ''select_active_intent'' (selectParams ''INT-001'')
            (Some ''Selected'') task0 world_no_store)) = Inr ()"
proof -
  let ?w = "postToolExecution E0 ''select_active_intent'' (selectParams ''INT-001'')
         (Some ''Selected'') task0 world_no_store"
  have a: "activeIntents ?w (taskId task0) = Some ''INT-001''"
    by (simp add: select_no_store) (simp add: task0_def)
  have f: "files ?w (intentsPath task0) = None"
    by (simp add: select_no_store)
  have "preToolExecution E0 ''write_to_file'' (writeParams ''/mock/cwd/package.json'' ''{}'')
      task0 ?w =
    enforceScope E0 ''INT-001'' (path (writeParams ''/mock/cwd/package.json'' ''{}'')) task0
      (console_log (ConsoleLog ''[HookEngine] Pre-tool execution: write_to_file'') ?w)"
    using a by (simp add: preToolExecution_bound)
  then show ?thesis
    using a f by (simp add: enforceScope_absent) (simp add: world_no_store_def)
qed

section \<open>Targets outside the project root\<close>

text \<open>
  C5 (as amended). For a target \<open>t\<close> whose root-relative form leaves the project root,
  and an intent that resolves with owned scope \<open>S\<close>, the check denies \<open>t\<close> exactly when
  no entry of \<open>S\<close> is a string prefix of the relative form or of \<open>t\<close> as passed, and
  the denial is the ordinary Scope Violation error: the code has no separate
  out-of-root reason.
\<close>

theorem enforceScope_escaping_target:
  assumes "files w (intentsPath task) = Some c"
    and "parseYaml E c = Inr (YamlArray is)"
    and "find (\<lambda>i. ident i = iid) is = Some intent"
    and "owned_scope intent = S"
    and "r = path_relative (process_cwd E) (cwd task) t"
    and "escapesRoot r"
  shows "(fst (enforceScope E iid (Some t) task w) = Inr () \<longleftrightarrow>
            (\<exists>s \<in> set S. prefix s r \<or> prefix s t))
         \<and> (fst (enforceScope E iid (Some t) task w) \<noteq> Inr () \<longrightarrow>
            fst (enforceScope E iid (Some t) task w) = Inl (ScopeViolation iid r S))"
  using assms by (simp add: enforceScope_found list_ex_iff scopeMatches_iff)

text \<open>
  The theorem at \<open>/mock/outside.txt\<close>, one level above the root \<open>/mock/cwd\<close>: intent
  \<open>INT-001\<close> is refused with the Scope Violation error.
\<close>

theorem enforceScope_escaping_target_witness:
  "escapesRoot ''../outside.txt''
   \<and> fst (enforceScope E0 ''INT-001'' (Some ''/mock/outside.txt'') task0 world0) =
       Inl (ScopeViolation ''INT-001'' ''../outside.txt'' [''src/hooks/'', ''docs/README.md''])"
proof -
  have r: "''../outside.txt'' = path_relative (process_cwd E0) (cwd task0) ''/mock/outside.txt''"
    by (simp add: path_relative_def resolveSegs_def isAbsolute_def E0_def task0_def)
  have e: "escapesRoot ''../outside.txt''"
    by (simp add: escapesRoot_def startsWith_def)
  show ?thesis
    using enforceScope_escaping_target
            [OF store_world0 parse_intentsYaml find_INT_001 scope_INT_001 r e] e
    by simp
qed

text \<open>
  C5 as stated fails: the target \<open>src/hooks/../../../outside.txt\<close> resolves to
  \<open>../outside.txt\<close>, above the root, and intent \<open>INT-001\<close> is allowed to write it,
  because the text of the target starts with the scope entry \<open>src/hooks/\<close>.
\<close>

theorem escaping_target_allowed_counterexample:
  "escapesRoot (path_relative (process_cwd E0) (cwd task0) ''src/hooks/../../../outside.txt'')
   \<and> fst (enforceScope E0 ''INT-001'' (Some ''src/hooks/../../../outside.txt'') task0 world0) =
       Inr ()"
proof -
  have r: "path_relative (process_cwd E0) (cwd task0) ''src/hooks/../../../outside.txt'' =
      ''../outside.txt''"
    by (simp add: path_relative_def resolveSegs_def isAbsolute_def E0_def task0_def)
  have "enforceScope E0 ''INT-001'' (Some ''src/hooks/../../../outside.txt'') task0 world0 =
      (Inr (), world0)"
    by (simp add: enforceScope_found [OF store_world0 parse_intentsYaml find_INT_001] r)
       (simp add: intents0_def scopeMatches_iff)
  then show ?thesis
    by (simp add: r escapesRoot_def startsWith_def)
qed

section \<open>An empty owned scope\<close>

text \<open>
  C6. When the bound intent resolves and its \<open>owned_scope\<close> is the empty list, the
  authorization check denies every target path \<open>t\<close>: it throws the Scope Violation
  error and changes nothing.
\<close>

theorem enforceScope_empty_scope_denies:
  assumes "files w (intentsPath task) = Some c"
    and "parseYaml E c = Inr (YamlArray is)"
    and "find (\<lambda>i. ident i = iid) is = Some intent"
    and "owned_scope intent = []"
  shows "enforceScope E iid (Some t) task w =
           (Inl (ScopeViolation iid (path_relative (process_cwd E) (cwd task) t) []), w)"
  using assms by (simp add: enforceScope_found)

theorem enforceScope_empty_scope_denies_witness:
  "owned_scope (intents0 ! 2) = []
   \<and> enforceScope E0 ''INT-003'' (Some ''/mock/cwd/src/hooks/test.ts'') task0 world0 =
      (Inl (ScopeViolation ''INT-003'' ''src/hooks/test.ts'' []), world0)"
proof -
  have r: "path_relative (process_cwd E0) (cwd task0) ''/mock/cwd/src/hooks/test.ts'' =
      ''src/hooks/test.ts''"
    by (simp add: path_relative_def resolveSegs_def isAbsolute_def E0_def task0_def)
  show ?thesis
    using enforceScope_empty_scope_denies
            [OF store_world0 parse_intentsYaml find_INT_003 scope_INT_003,
             where t = "''/mock/cwd/src/hooks/test.ts''"]
          scope_INT_003 r
    by simp
qed

section \<open>Writing with no intent bound\<close>

text \<open>
  C7 (as amended). When no intent is bound for the session and \<open>write_to_file\<close> is
  invoked, the pre-action hook allows the action and writes the warning
  \<^verbatim>\<open>WRITE attempted without Active Intent\<close> to the console, and the post-action hook
  writes no trace record (it only logs its own call). This holds for every
  environment and every parameter: the code has no strict mode in which the action
  is denied.
\<close>

theorem unbound_write_allowed_with_warning_untraced:
  assumes "falsy (activeIntents w (taskId task))"
  shows "preToolExecution E ''write_to_file'' params task w =
           (Inr (),
            console_log (ConsoleWarn ''[HookEngine] WRITE attempted without Active Intent'')
              (console_log (ConsoleLog ''[HookEngine] Pre-tool execution: write_to_file'') w))
         \<and> postToolExecution E ''write_to_file'' params result task w =
             console_log (ConsoleLog ''[HookEngine] Post-tool execution: write_to_file'') w"
  using assms
  by (auto simp add: falsy_def preToolExecution_def postToolExecution_def traceAction_def Let_def
      split: option.splits)

theorem unbound_write_allowed_with_warning_untraced_witness:
  "falsy (activeIntents world0 (taskId task0))
   \<and> fst (preToolExecution E0 ''write_to_file'' (writeParams ''/mock/cwd/any.ts'' ''x'') task0
        world0) = Inr ()
   \<and> console (snd (preToolExecution E0 ''write_to_file'' (writeParams ''/mock/cwd/any.ts'' ''x'')
        task0 world0)) =
        [ConsoleLog ''[HookEngine] Pre-tool execution: write_to_file'',
         ConsoleWarn ''[HookEngine] WRITE attempted without Active Intent'']
   \<and> files (postToolExecution E0 ''write_to_file'' (writeParams ''/mock/cwd/any.ts'' ''x'')
         (Some ''File written'') task0 world0) = files world0"
proof -
  have u: "falsy (activeIntents world0 (taskId task0))"
    by (simp add: falsy_def world0_def)
  show ?thesis
    using unbound_write_allowed_with_warning_untraced
            [OF u, where E = E0 and params = "writeParams ''/mock/cwd/any.ts'' ''x''"
               and result = "Some ''File written''"] u
    by (simp add: world0_def)
qed

text \<open>
  C7 as stated fails in its last part: \<open>preToolExecution\<close> takes no mode, and the write
  of the unbound session is allowed, not denied.
\<close>

theorem unbound_write_never_denied_counterexample:
  "activeIntents world0 (taskId task0) = None
   \<and> fst (preToolExecution E0 ''write_to_file'' (writeParams ''/mock/cwd/any.ts'' ''x'') task0
        world0) = Inr ()"
  by (simp add: preToolExecution_def Let_def) (simp add: world0_def)

section \<open>The audit trail\<close>

text \<open>
  C8. For a \<open>write_to_file\<close> performed while the session is bound to an intent, the
  post-action hook appends exactly one record (one printed entry and a newline) to the
  trace file and changes no other file and no binding; the record's
  \<open>content_hash\<close> and \<open>file_hash\<close> are the SHA-256 digest of the content parameter, and
  the digest of the empty string when the tool supplies no content. The pre-action
  hook, whatever it decides, writes no file: a denied action, after which the post
  hook is not called, leaves no trace record.
\<close>

theorem bound_write_appends_one_trace_record:
  assumes "activeIntents w (taskId task) = Some iid" and "iid \<noteq> []"
    and "w' = postToolExecution E ''write_to_file'' params result task w"
    and "old = (case files w (traceFile task) of None \<Rightarrow> [] | Some s \<Rightarrow> s)"
    and "entry =
          \<lparr>timestamp = toISOString_now E, trace_intent_id = iid, tool = ''write_to_file'',
           params_path = path params,
           params_content_hash =
             sha256_hex E (case content params of None \<Rightarrow> [] | Some c \<Rightarrow> c),
           result_summary =
             (case result of Some r \<Rightarrow> take 100 r | None \<Rightarrow> ''Result too large/complex''),
           file_hash = sha256_hex E (case content params of None \<Rightarrow> [] | Some c \<Rightarrow> c),
           git = getGitMetadata E (cwd task)\<rparr>"
  shows "files w' = (files w)(traceFile task \<mapsto> old @ JSON_stringify E entry @ [newline])
         \<and> activeIntents w' = activeIntents w
         \<and> (content params = None \<longrightarrow> params_content_hash entry = sha256_hex E [])
         \<and> (\<forall>c. content params = Some c \<longrightarrow> params_content_hash entry = sha256_hex E c)
         \<and> files (snd (preToolExecution E toolName params' task w)) = files w"
proof -
  have w': "w' = appendFile (traceFile task) (JSON_stringify E entry @ [newline])
      (console_log (ConsoleLog ''[HookEngine] Post-tool execution: write_to_file'') w)"
    using assms by (simp add: postToolExecution_def traceAction_def Let_def)
  have "files w' = (files w)(traceFile task \<mapsto> old @ JSON_stringify E entry @ [newline])"
    using assms(4) by (simp add: w' appendFile_def)
  moreover have "activeIntents w' = activeIntents w"
    by (simp add: w' appendFile_def)
  moreover have "content params = None \<longrightarrow> params_content_hash entry = sha256_hex E []"
    using assms(5) by simp
  moreover have "\<forall>c. content params = Some c \<longrightarrow> params_content_hash entry = sha256_hex E c"
    using assms(5) by simp
  ultimately show ?thesis
    by (simp add: preToolExecution_files)
qed

text \<open>
  Scenario C of the specification: \<open>INT-001\<close> is selected, and the write of
  \<^verbatim>\<open>const x = 1;\<close> leaves one record in a trace file that did not exist before.
\<close>

theorem bound_write_appends_one_trace_record_witness:
  "activeIntents (bound ''INT-001'' world0) (taskId task0) = Some ''INT-001''
   \<and> files (postToolExecution E0 ''write_to_file''
        (writeParams ''src/hooks/test.ts'' ''const x = 1;'') (Some ''File written'') task0
        (bound ''INT-001'' world0)) =
     [intentsPath0 \<mapsto> intentsYaml,
      tracePath0 \<mapsto> ''INT-001 write_to_file sha256:const x = 1;'' @ [newline]]"
proof -
  have a: "activeIntents (bound ''INT-001'' world0) (taskId task0) = Some ''INT-001''"
    by simp
  have n: "''INT-001'' \<noteq> []"
    by simp
  have t: "files world0 tracePath0 = None"
    by (simp add: world0_def intentsPath0_def tracePath0_def)
  show ?thesis
    using bound_write_appends_one_trace_record
            [OF a n refl refl refl, where E = E0
               and params = "writeParams ''src/hooks/test.ts'' ''const x = 1;''"
               and result = "Some ''File written''"] a t
    by (simp add: traceFile_task0 E0_def writeParams_def) (simp add: world0_def)
qed

section \<open>Selecting an intent\<close>

text \<open>
  What \<open>execute\<close> does, for every store and id: it fails when the store file is
  absent and when the text of the id occurs nowhere in the raw text of the store,
  handing an error to \<open>handleError\<close> and leaving the state unchanged; otherwise it
  returns the whole raw text of the store between \<^verbatim>\<open><intent_context>\<close> tags, binds
  the session to the id when the id is not the empty string, and writes no file.
\<close>

lemma execute_succeeds_iff_id_text_in_store:
  "(case files w (intentsPath task) of
      None \<Rightarrow>
        execute E sel task w = ([handleError ''selecting active intent'' NoActiveIntentsFound], w)
    | Some c \<Rightarrow>
        if \<exists>u v. c = u @ sel @ v
        then fst (execute E sel task w) = [pushToolResult (intent_context c)]
             \<and> activeIntents (snd (execute E sel task w)) =
                 (if sel = [] then activeIntents w else (activeIntents w)(taskId task \<mapsto> sel))
             \<and> files (snd (execute E sel task w)) = files w
        else execute E sel task w =
               ([handleError ''selecting active intent'' (IntentIDNotFound sel)], w))"
proof (cases "files w (intentsPath task)")
  case None
  then show ?thesis
    by (simp add: execute_def)
next
  case (Some c)
  show ?thesis
  proof (cases "\<exists>u v. c = u @ sel @ v")
    case True
    then have "str_includes c sel"
      by (simp add: str_includes_iff)
    with Some True show ?thesis
      by (simp add: execute_def Let_def postToolExecution_def)
  next
    case False
    then have "\<not> str_includes c sel"
      by (simp add: str_includes_iff)
    with Some False show ?thesis
      by (simp add: execute_def Let_def)
  qed
qed

lemma execute_succeeds_iff_id_text_in_store_at_INT_001:
  "(\<exists>u v. intentsYaml = u @ ''INT-001'' @ v)
   \<and> fst (execute E0 ''INT-001'' task0 world0) = [pushToolResult (intent_context intentsYaml)]
   \<and> activeIntents (snd (execute E0 ''INT-001'' task0 world0)) =
        [''test-task-id'' \<mapsto> ''INT-001'']
   \<and> execute E0 ''INT-777'' task0 world0 =
        ([handleError ''selecting active intent'' (IntentIDNotFound ''INT-777'')], world0)"
proof -
  have 1: "\<exists>u v. intentsYaml = u @ ''INT-001'' @ v"
    unfolding str_includes_iff [symmetric] by (simp add: intentsYaml_def)
  have 2: "\<not> (\<exists>u v. intentsYaml = u @ ''INT-777'' @ v)"
    unfolding str_includes_iff [symmetric] by (simp add: intentsYaml_def)
  show ?thesis
    using execute_succeeds_iff_id_text_in_store
            [where w = world0 and task = task0 and E = E0 and sel = "''INT-001''"]
          execute_succeeds_iff_id_text_in_store
            [where w = world0 and task = task0 and E = E0 and sel = "''INT-777''"]
          1 2
    by (simp add: store_world0) (simp add: world0_def task0_def)
qed

text \<open>
  C9. The select-intent action is to fail whenever no intent of the store has the
  given id, and on success to return only the selected intent's scope, constraints
  and acceptance criteria. The tool's own comments say so (\<^verbatim>\<open>we would parse YAML and
  filter by ID\<close>, \<^verbatim>\<open>containing only the constraints and scope for the selected ID\<close>,
  \<^verbatim>\<open>Simple validation that ID exists in file\<close>), and \<open>enforceScope\<close> looks the id up in
  the parsed list. \<open>execute\<close> misses both. No intent of the store has the id \<open>INT-00\<close>,
  yet selecting it succeeds and binds the session to it, because the text \<open>INT-00\<close>
  occurs in the file. And the block returned for \<open>INT-001\<close> is the whole file: it
  holds the record of \<open>INT-002\<close> as well.
\<close>

theorem execute_accepts_absent_id_and_returns_whole_store:
  "find (\<lambda>i. ident i = ''INT-00'') intents0 = None
   \<and> fst (execute E0 ''INT-00'' task0 world0) = [pushToolResult (intent_context intentsYaml)]
   \<and> activeIntents (snd (execute E0 ''INT-00'' task0 world0)) (taskId task0) = Some ''INT-00''
   \<and> fst (execute E0 ''INT-001'' task0 world0) = [pushToolResult (intent_context intentsYaml)]
   \<and> str_includes (intent_context intentsYaml) ''- id: INT-002''"
proof -
  have 0: "str_includes intentsYaml ''INT-00''"
    by (simp add: intentsYaml_def)
  have 1: "str_includes intentsYaml ''INT-001''"
    by (simp add: intentsYaml_def)
  have "str_includes intentsYaml ''- id: INT-002''"
    by (simp add: intentsYaml_def)
  then have 2: "str_includes (intent_context intentsYaml) ''- id: INT-002''"
    unfolding str_includes_iff intent_context_def by (metis append.assoc)
  show ?thesis
    using store_world0 0 1 2
    by (simp add: execute_def Let_def find_INT_00 postToolExecution_def)
qed

section \<open>The post-action hook of select-intent with no id\<close>

text \<open>
  C10. When the post-action hook runs for \<open>select_active_intent\<close> and the \<open>intent_id\<close>
  parameter is missing or empty, the session registry is unchanged: no binding of any
  session is created, overwritten or removed. The hook only logs its call.
\<close>

theorem select_hook_falsy_id_keeps_registry:
  assumes "falsy (intent_id params)"
  shows "postToolExecution E ''select_active_intent'' params result task w =
           console_log (ConsoleLog ''[HookEngine] Post-tool execution: select_active_intent'') w
         \<and> activeIntents (postToolExecution E ''select_active_intent'' params result task w) =
           activeIntents w"
  using assms by (auto simp add: falsy_def postToolExecution_def Let_def split: option.splits)

theorem select_hook_falsy_id_keeps_registry_witness:
  "falsy (intent_id (selectParams []))
   \<and> activeIntents (postToolExecution E0 ''select_active_intent'' (selectParams [])
        (Some ''Selected'') task0 (bound ''INT-001'' world0)) =
      [''test-task-id'' \<mapsto> ''INT-001'']"
proof -
  have f: "falsy (intent_id (selectParams []))"
    by (simp add: falsy_def selectParams_def)
  show ?thesis
    using select_hook_falsy_id_keeps_registry
            [OF f, where E = E0 and result = "Some ''Selected''" and task = task0
               and w = "bound ''INT-001'' world0"] f
    by (simp add: bound_def world0_def task0_def)
qed

end
